theory Spec2Isabelle
  imports Main "HOL-Library.Sublist"
begin

section \<open>Values exchanged with the remote services\<close>

text \<open>
  The tools of \<^verbatim>\<open>server.py\<close> pass Python values built from dicts, lists, strings,
  integers, booleans and \<^verbatim>\<open>None\<close> to the Google client libraries and get parsed JSON
  back. A dict is an association list in insertion order. Numbers are integers: the code
  does arithmetic only on the integer arguments \<^verbatim>\<open>count\<close> and \<^verbatim>\<open>start_row\<close>.
\<close>

datatype json =
    JNull
  | JBool bool
  | JInt int
  | JStr string
  | JList "json list"
  | JObj "(string \<times> json) list"

text \<open>
  Every Python exception the tools can meet is a value. \<open>RemoteError\<close> is a failure
  reported by a client library call; the others are raised by the interpreter.
\<close>

datatype fault =
    KeyError string
  | IndexError
  | TypeError
  | AttributeError
  | RemoteError string
  | FileNotFoundError string

subsection \<open>The Python operations the tools apply to those values\<close>

text \<open>\<^verbatim>\<open>x[k]\<close> with a string key: only a dict has string keys.\<close>

fun py_getitem :: "json \<Rightarrow> string \<Rightarrow> fault + json" where
  "py_getitem (JObj kvs) k = (case map_of kvs k of None \<Rightarrow> Inl (KeyError k) | Some v \<Rightarrow> Inr v)"
| "py_getitem _ k = Inl TypeError"

text \<open>\<^verbatim>\<open>x[0]\<close>: the first element of a list or string; a parsed JSON dict has no key 0.\<close>

fun py_getitem0 :: "json \<Rightarrow> fault + json" where
  "py_getitem0 (JList []) = Inl IndexError"
| "py_getitem0 (JList (x # xs)) = Inr x"
| "py_getitem0 (JStr []) = Inl IndexError"
| "py_getitem0 (JStr (c # cs)) = Inr (JStr [c])"
| "py_getitem0 (JObj kvs) = Inl (KeyError ''0'')"
| "py_getitem0 _ = Inl TypeError"

text \<open>\<^verbatim>\<open>x.get(k, d)\<close>: only a dict has the method.\<close>

fun py_get :: "json \<Rightarrow> string \<Rightarrow> json \<Rightarrow> fault + json" where
  "py_get (JObj kvs) k d = (case map_of kvs k of None \<Rightarrow> Inr d | Some v \<Rightarrow> Inr v)"
| "py_get _ k d = Inl AttributeError"

text \<open>
  \<^verbatim>\<open>k in x\<close> for a string \<open>k\<close>: a key of a dict, an element of a list, a substring of a
  string; other values are not containers.
\<close>

fun py_in :: "string \<Rightarrow> json \<Rightarrow> fault + bool" where
  "py_in k (JObj kvs) = Inr (k \<in> set (map fst kvs))"
| "py_in k (JList xs) = Inr (JStr k \<in> set xs)"
| "py_in k (JStr s) = Inr (sublist k s)"
| "py_in k _ = Inl TypeError"

text \<open>
  \<^verbatim>\<open>for s in x\<close>: the elements of a list, the keys of a dict, the characters of a string.
\<close>

fun py_iter :: "json \<Rightarrow> fault + json list" where
  "py_iter (JList xs) = Inr xs"
| "py_iter (JObj kvs) = Inr (map (\<lambda>kv. JStr (fst kv)) kvs)"
| "py_iter (JStr s) = Inr (map (\<lambda>c. JStr [c]) s)"
| "py_iter _ = Inl TypeError"

text \<open>Truthiness of an optional string: \<^verbatim>\<open>None\<close> and the empty string are false.\<close>

fun truthy :: "string option \<Rightarrow> bool" where
  "truthy None = False"
| "truthy (Some s) = (s \<noteq> [])"

text \<open>\<^verbatim>\<open>",".join(xs)\<close> on the elements already iterated: every element must be a string.\<close>

fun join_comma :: "json list \<Rightarrow> fault + string" where
  "join_comma [] = Inr []"
| "join_comma [JStr s] = Inr s"
| "join_comma (JStr s # x # xs) =
     (case join_comma (x # xs) of Inl e \<Rightarrow> Inl e | Inr r \<Rightarrow> Inr (s @ '','' @ r))"
| "join_comma (_ # xs) = Inl TypeError"

section \<open>Session context, remote services and the state of the process\<close>

type_synonym handle = nat

record SpreadsheetContext =
  sheets_service :: handle
  drive_service :: handle
  folder_id :: "string option"

text \<open>
  One constructor per request the tools build on the two client handles, with the keyword
  arguments of the source in their order.
\<close>

datatype api_request =
    ValuesGet string string
  | ValuesUpdate string string string json
  | ValuesBatchUpdate string json
  | SpreadsheetsGet string
  | SpreadsheetsBatchUpdate string json
  | SheetsCopyTo string json json
  | SpreadsheetsCreate json string
  | FilesGet json string
  | FilesUpdate json string string string
  | FilesList string string string string

text \<open>One constructor per \<^verbatim>\<open>print\<close> statement of the tools, with the values it interpolates.\<close>

datatype log_line =
    SpreadsheetCreated json
  | SpreadsheetMoved string
  | MoveWarning fault
  | SearchingFolder string
  | SearchingMyDrive

text \<open>
  The state of the serving process: the context built at startup, the requests executed
  so far (oldest first, each with the handle it was issued on) and the lines printed.
\<close>

record world =
  lifespan_context :: SpreadsheetContext
  issued :: "(handle \<times> api_request) list"
  printed :: "log_line list"

text \<open>
  The remote services are outside the repository: their answer to a request is a
  parameter, and may depend on every request executed before it.
\<close>

type_synonym remote = "(handle \<times> api_request) list \<Rightarrow> handle \<times> api_request \<Rightarrow> fault + json"

definition execute :: "remote \<Rightarrow> handle \<Rightarrow> api_request \<Rightarrow> world \<Rightarrow> (fault + json) \<times> world" where
  "execute R svc req w = (R (issued w) (svc, req), w\<lparr>issued := issued w @ [(svc, req)]\<rparr>)"

definition print_line :: "log_line \<Rightarrow> world \<Rightarrow> world" where
  "print_line l w = w\<lparr>printed := printed w @ [l]\<rparr>"

section \<open>Sheet-name to sheet-id lookup\<close>

text \<open>
  \<^verbatim>\<open>add_rows\<close>, \<^verbatim>\<open>add_columns\<close>, \<^verbatim>\<open>copy_sheet\<close> and \<^verbatim>\<open>rename_sheet\<close> each contain the
  same loop over \<^verbatim>\<open>spreadsheet['sheets']\<close>, up to the names of its variables. It is
  modelled once. \<open>scan_sheets\<close> is the loop: it returns the value of \<^verbatim>\<open>sheet_id\<close> when
  the loop ends, which is \<^verbatim>\<open>None\<close> when nothing matched.
\<close>

fun scan_sheets :: "json list \<Rightarrow> string \<Rightarrow> fault + json" where
  "scan_sheets [] sheet = Inr JNull"
| "scan_sheets (s # ss) sheet =
     (case py_getitem s ''properties'' of
        Inl e \<Rightarrow> Inl e
      | Inr p \<Rightarrow>
          (case py_getitem p ''title'' of
             Inl e \<Rightarrow> Inl e
           | Inr t \<Rightarrow>
               if t = JStr sheet then py_getitem p ''sheetId''
               else scan_sheets ss sheet))"

definition find_sheet_id :: "json \<Rightarrow> string \<Rightarrow> fault + json" where
  "find_sheet_id spreadsheet sheet =
     (case py_getitem spreadsheet ''sheets'' of
        Inl e \<Rightarrow> Inl e
      | Inr sheets \<Rightarrow>
          (case py_iter sheets of
             Inl e \<Rightarrow> Inl e
           | Inr ss \<Rightarrow> scan_sheets ss sheet))"

text \<open>The text of the two not-found messages.\<close>

definition sheet_not_found :: "string \<Rightarrow> json" where
  "sheet_not_found sheet =
     JObj [(''error'', JStr (''Sheet '' @ [CHR 0x27] @ sheet @ [CHR 0x27] @ '' not found''))]"

definition source_sheet_not_found :: "string \<Rightarrow> json" where
  "source_sheet_not_found src_sheet =
     JObj [(''error'', JStr (''Source sheet '' @ [CHR 0x27] @ src_sheet @ [CHR 0x27] @ '' not found''))]"

section \<open>The tools\<close>

text \<open>
  Each tool takes the remote services, its arguments and the state of the process, and
  returns its result (or the fault it raises) with the new state. A list comprehension
  whose element expression can raise stops at the first fault.
\<close>

fun collect :: "(json \<Rightarrow> fault + json) \<Rightarrow> json list \<Rightarrow> fault + json list" where
  "collect f [] = Inr []"
| "collect f (x # xs) =
     (case f x of
        Inl e \<Rightarrow> Inl e
      | Inr y \<Rightarrow> (case collect f xs of Inl e \<Rightarrow> Inl e | Inr ys \<Rightarrow> Inr (y # ys)))"

subsection \<open>get\_sheet\_data, update\_cells, batch\_update\_cells\<close>

definition get_sheet_data ::
  "remote \<Rightarrow> string \<Rightarrow> string \<Rightarrow> string option \<Rightarrow> world \<Rightarrow> (fault + json) \<times> world" where
  "get_sheet_data R spreadsheet_id sheet a1_range w =
     (let full_range =
            (case a1_range of
               None \<Rightarrow> sheet
             | Some r \<Rightarrow> if r \<noteq> [] then sheet @ ''!'' @ r else sheet)
      in case execute R (sheets_service (lifespan_context w)) (ValuesGet spreadsheet_id full_range) w of
           (Inl e, w1) \<Rightarrow> (Inl e, w1)
         | (Inr result, w1) \<Rightarrow> (py_get result ''values'' (JList []), w1))"

definition update_cells ::
  "remote \<Rightarrow> string \<Rightarrow> string \<Rightarrow> string \<Rightarrow> json \<Rightarrow> world \<Rightarrow> (fault + json) \<times> world" where
  "update_cells R spreadsheet_id sheet a1_range data w =
     (let full_range = sheet @ ''!'' @ a1_range;
          value_range_body = JObj [(''values'', data)]
      in execute R (sheets_service (lifespan_context w))
           (ValuesUpdate spreadsheet_id full_range ''USER_ENTERED'' value_range_body) w)"

text \<open>
  The loop of \<^verbatim>\<open>batch_update_cells\<close> over \<^verbatim>\<open>ranges.items()\<close>, appending one entry to
  \<^verbatim>\<open>data\<close> for each range. The dict \<^verbatim>\<open>ranges\<close> is its items in order.
\<close>

fun batch_data :: "string \<Rightarrow> (string \<times> json) list \<Rightarrow> json list \<Rightarrow> json list" where
  "batch_data sheet [] data = data"
| "batch_data sheet ((range_str, vals) # rest) data =
     batch_data sheet rest
       (data @ [JObj [(''range'', JStr (sheet @ ''!'' @ range_str)), (''values'', vals)]])"

definition batch_update_cells ::
  "remote \<Rightarrow> string \<Rightarrow> string \<Rightarrow> (string \<times> json) list \<Rightarrow> world \<Rightarrow> (fault + json) \<times> world" where
  "batch_update_cells R spreadsheet_id sheet ranges w =
     (let data = batch_data sheet ranges [];
          batch_body = JObj [(''valueInputOption'', JStr ''USER_ENTERED''), (''data'', JList data)]
      in execute R (sheets_service (lifespan_context w))
           (ValuesBatchUpdate spreadsheet_id batch_body) w)"

subsection \<open>add\_rows, add\_columns\<close>

definition add_rows ::
  "remote \<Rightarrow> string \<Rightarrow> string \<Rightarrow> int \<Rightarrow> int option \<Rightarrow> world \<Rightarrow> (fault + json) \<times> world" where
  "add_rows R spreadsheet_id sheet count start_row w =
     (case execute R (sheets_service (lifespan_context w)) (SpreadsheetsGet spreadsheet_id) w of
        (Inl e, w1) \<Rightarrow> (Inl e, w1)
      | (Inr spreadsheet, w1) \<Rightarrow>
          (case find_sheet_id spreadsheet sheet of
             Inl e \<Rightarrow> (Inl e, w1)
           | Inr sheet_id \<Rightarrow>
               if sheet_id = JNull then (Inr (sheet_not_found sheet), w1)
               else
                 let request_body =
                   JObj [(''requests'', JList [
                     JObj [(''insertDimension'', JObj [
                       (''range'', JObj [
                          (''sheetId'', sheet_id),
                          (''dimension'', JStr ''ROWS''),
                          (''startIndex'', JInt (case start_row of Some r \<Rightarrow> r | None \<Rightarrow> 0)),
                          (''endIndex'', JInt ((case start_row of Some r \<Rightarrow> r | None \<Rightarrow> 0) + count))]),
                       (''inheritFromBefore'',
                          JBool (case start_row of None \<Rightarrow> False | Some r \<Rightarrow> r > 0))])]])]
                 in execute R (sheets_service (lifespan_context w))
                      (SpreadsheetsBatchUpdate spreadsheet_id request_body) w1))"

definition add_columns ::
  "remote \<Rightarrow> string \<Rightarrow> string \<Rightarrow> int \<Rightarrow> int option \<Rightarrow> world \<Rightarrow> (fault + json) \<times> world" where
  "add_columns R spreadsheet_id sheet count start_column w =
     (case execute R (sheets_service (lifespan_context w)) (SpreadsheetsGet spreadsheet_id) w of
        (Inl e, w1) \<Rightarrow> (Inl e, w1)
      | (Inr spreadsheet, w1) \<Rightarrow>
          (case find_sheet_id spreadsheet sheet of
             Inl e \<Rightarrow> (Inl e, w1)
           | Inr sheet_id \<Rightarrow>
               if sheet_id = JNull then (Inr (sheet_not_found sheet), w1)
               else
                 let request_body =
                   JObj [(''requests'', JList [
                     JObj [(''insertDimension'', JObj [
                       (''range'', JObj [
                          (''sheetId'', sheet_id),
                          (''dimension'', JStr ''COLUMNS''),
                          (''startIndex'', JInt (case start_column of Some c \<Rightarrow> c | None \<Rightarrow> 0)),
                          (''endIndex'', JInt ((case start_column of Some c \<Rightarrow> c | None \<Rightarrow> 0) + count))]),
                       (''inheritFromBefore'',
                          JBool (case start_column of None \<Rightarrow> False | Some c \<Rightarrow> c > 0))])]])]
                 in execute R (sheets_service (lifespan_context w))
                      (SpreadsheetsBatchUpdate spreadsheet_id request_body) w1))"

subsection \<open>list\_sheets\<close>

definition descriptor_title :: "json \<Rightarrow> fault + json" where
  "descriptor_title s =
     (case py_getitem s ''properties'' of Inl e \<Rightarrow> Inl e | Inr p \<Rightarrow> py_getitem p ''title'')"

definition list_sheets :: "remote \<Rightarrow> string \<Rightarrow> world \<Rightarrow> (fault + json) \<times> world" where
  "list_sheets R spreadsheet_id w =
     (case execute R (sheets_service (lifespan_context w)) (SpreadsheetsGet spreadsheet_id) w of
        (Inl e, w1) \<Rightarrow> (Inl e, w1)
      | (Inr spreadsheet, w1) \<Rightarrow>
          (case py_getitem spreadsheet ''sheets'' of
             Inl e \<Rightarrow> (Inl e, w1)
           | Inr sheets \<Rightarrow>
               (case py_iter sheets of
                  Inl e \<Rightarrow> (Inl e, w1)
                | Inr ss \<Rightarrow>
                    (case collect descriptor_title ss of
                       Inl e \<Rightarrow> (Inl e, w1)
                     | Inr sheet_names \<Rightarrow> (Inr (JList sheet_names), w1)))))"

subsection \<open>copy\_sheet, rename\_sheet\<close>

definition rename_request :: "json \<Rightarrow> string \<Rightarrow> json" where
  "rename_request sheet_id new_title =
     JObj [(''requests'', JList [
       JObj [(''updateSheetProperties'', JObj [
         (''properties'', JObj [(''sheetId'', sheet_id), (''title'', JStr new_title)]),
         (''fields'', JStr ''title'')])]])]"

definition copy_sheet ::
  "remote \<Rightarrow> string \<Rightarrow> string \<Rightarrow> string \<Rightarrow> string \<Rightarrow> world \<Rightarrow> (fault + json) \<times> world" where
  "copy_sheet R src_spreadsheet src_sheet dst_spreadsheet dst_sheet w =
     (case execute R (sheets_service (lifespan_context w)) (SpreadsheetsGet src_spreadsheet) w of
        (Inl e, w1) \<Rightarrow> (Inl e, w1)
      | (Inr src, w1) \<Rightarrow>
          (case find_sheet_id src src_sheet of
             Inl e \<Rightarrow> (Inl e, w1)
           | Inr src_sheet_id \<Rightarrow>
               if src_sheet_id = JNull then (Inr (source_sheet_not_found src_sheet), w1)
               else
                 (case execute R (sheets_service (lifespan_context w))
                         (SheetsCopyTo src_spreadsheet src_sheet_id
                            (JObj [(''destinationSpreadsheetId'', JStr dst_spreadsheet)])) w1 of
                    (Inl e, w2) \<Rightarrow> (Inl e, w2)
                  | (Inr copy_result, w2) \<Rightarrow>
                      (case py_in ''title'' copy_result of
                         Inl e \<Rightarrow> (Inl e, w2)
                       | Inr False \<Rightarrow> (Inr (JObj [(''copy'', copy_result)]), w2)
                       | Inr True \<Rightarrow>
                           (case py_getitem copy_result ''title'' of
                              Inl e \<Rightarrow> (Inl e, w2)
                            | Inr t \<Rightarrow>
                                if t \<noteq> JStr dst_sheet then
                                  (case py_getitem copy_result ''sheetId'' of
                                     Inl e \<Rightarrow> (Inl e, w2)
                                   | Inr copy_sheet_id \<Rightarrow>
                                       (case execute R (sheets_service (lifespan_context w))
                                               (SpreadsheetsBatchUpdate dst_spreadsheet
                                                  (rename_request copy_sheet_id dst_sheet)) w2 of
                                          (Inl e, w3) \<Rightarrow> (Inl e, w3)
                                        | (Inr rename_result, w3) \<Rightarrow>
                                            (Inr (JObj [(''copy'', copy_result),
                                                        (''rename'', rename_result)]), w3)))
                                else (Inr (JObj [(''copy'', copy_result)]), w2))))))"

definition rename_sheet ::
  "remote \<Rightarrow> string \<Rightarrow> string \<Rightarrow> string \<Rightarrow> world \<Rightarrow> (fault + json) \<times> world" where
  "rename_sheet R spreadsheet sheet new_name w =
     (case execute R (sheets_service (lifespan_context w)) (SpreadsheetsGet spreadsheet) w of
        (Inl e, w1) \<Rightarrow> (Inl e, w1)
      | (Inr spreadsheet_data, w1) \<Rightarrow>
          (case find_sheet_id spreadsheet_data sheet of
             Inl e \<Rightarrow> (Inl e, w1)
           | Inr sheet_id \<Rightarrow>
               if sheet_id = JNull then (Inr (sheet_not_found sheet), w1)
               else execute R (sheets_service (lifespan_context w))
                      (SpreadsheetsBatchUpdate spreadsheet (rename_request sheet_id new_name)) w1))"

subsection \<open>get\_spreadsheet\_info\<close>

text \<open>
  The element expression of the comprehension in \<^verbatim>\<open>get_spreadsheet_info\<close>: the three
  entries of the dict are evaluated in their order.
\<close>

definition sheet_info :: "json \<Rightarrow> fault + json" where
  "sheet_info sheet =
     (case py_getitem sheet ''properties'' of
        Inl e \<Rightarrow> Inl e
      | Inr p \<Rightarrow>
          (case py_getitem p ''title'' of
             Inl e \<Rightarrow> Inl e
           | Inr t \<Rightarrow>
               (case py_getitem p ''sheetId'' of
                  Inl e \<Rightarrow> Inl e
                | Inr i \<Rightarrow>
                    (case py_get p ''gridProperties'' (JObj []) of
                       Inl e \<Rightarrow> Inl e
                     | Inr g \<Rightarrow>
                         Inr (JObj [(''title'', t), (''sheetId'', i), (''gridProperties'', g)])))))"

definition spreadsheet_info :: "json \<Rightarrow> fault + json" where
  "spreadsheet_info spreadsheet =
     (case py_get spreadsheet ''properties'' (JObj []) of
        Inl e \<Rightarrow> Inl e
      | Inr props \<Rightarrow>
          (case py_get props ''title'' (JStr ''Unknown'') of
             Inl e \<Rightarrow> Inl e
           | Inr t \<Rightarrow>
               (case py_get spreadsheet ''sheets'' (JList []) of
                  Inl e \<Rightarrow> Inl e
                | Inr sheets \<Rightarrow>
                    (case py_iter sheets of
                       Inl e \<Rightarrow> Inl e
                     | Inr ss \<Rightarrow>
                         (case collect sheet_info ss of
                            Inl e \<Rightarrow> Inl e
                          | Inr infos \<Rightarrow> Inr (JObj [(''title'', t), (''sheets'', JList infos)]))))))"

text \<open>
  \<^verbatim>\<open>json.dumps(info, indent=2)\<close> belongs to the Python library, not to the repository: the
  serialiser \<open>dumps\<close> is a parameter. The resource reads the context of the process and
  returns a string.
\<close>

definition get_spreadsheet_info ::
  "remote \<Rightarrow> (json \<Rightarrow> string) \<Rightarrow> string \<Rightarrow> world \<Rightarrow> (fault + json) \<times> world" where
  "get_spreadsheet_info R dumps spreadsheet_id w =
     (case execute R (sheets_service (lifespan_context w)) (SpreadsheetsGet spreadsheet_id) w of
        (Inl e, w1) \<Rightarrow> (Inl e, w1)
      | (Inr spreadsheet, w1) \<Rightarrow>
          (case spreadsheet_info spreadsheet of
             Inl e \<Rightarrow> (Inl e, w1)
           | Inr info \<Rightarrow> (Inr (JStr (dumps info)), w1)))"

subsection \<open>create\_spreadsheet\<close>

text \<open>
  The body of the \<^verbatim>\<open>try\<close> block of \<^verbatim>\<open>create_spreadsheet\<close>: fetch the parents of the new
  file, move it, print the confirmation. It returns the fault that leaves the block, if any.
\<close>

definition move_to_folder :: "remote \<Rightarrow> json \<Rightarrow> string \<Rightarrow> world \<Rightarrow> fault option \<times> world" where
  "move_to_folder R spreadsheet_id fid w =
     (case execute R (drive_service (lifespan_context w)) (FilesGet spreadsheet_id ''parents'') w of
        (Inl e, w1) \<Rightarrow> (Some e, w1)
      | (Inr file, w1) \<Rightarrow>
          (case py_get file ''parents'' (JList []) of
             Inl e \<Rightarrow> (Some e, w1)
           | Inr parents \<Rightarrow>
               (case py_iter parents of
                  Inl e \<Rightarrow> (Some e, w1)
                | Inr ps \<Rightarrow>
                    (case join_comma ps of
                       Inl e \<Rightarrow> (Some e, w1)
                     | Inr previous_parents \<Rightarrow>
                         (case execute R (drive_service (lifespan_context w))
                                 (FilesUpdate spreadsheet_id fid previous_parents ''id, parents'') w1 of
                            (Inl e, w2) \<Rightarrow> (Some e, w2)
                          | (Inr moved, w2) \<Rightarrow> (None, print_line (SpreadsheetMoved fid) w2))))))"

text \<open>The element expression of the comprehension that builds \<^verbatim>\<open>'sheets'\<close>.\<close>

definition created_sheet_title :: "json \<Rightarrow> fault + json" where
  "created_sheet_title sheet =
     (case py_get sheet ''properties'' (JObj []) of
        Inl e \<Rightarrow> Inl e
      | Inr p \<Rightarrow> py_get p ''title'' (JStr ''Sheet1''))"

text \<open>The dict returned by \<^verbatim>\<open>create_spreadsheet\<close>, its entries evaluated in their order.\<close>

definition created_result :: "json \<Rightarrow> json \<Rightarrow> string \<Rightarrow> string option \<Rightarrow> fault + json" where
  "created_result spreadsheet spreadsheet_id title fid =
     (case py_get spreadsheet ''properties'' (JObj []) of
        Inl e \<Rightarrow> Inl e
      | Inr props \<Rightarrow>
          (case py_get props ''title'' (JStr title) of
             Inl e \<Rightarrow> Inl e
           | Inr t \<Rightarrow>
               (case py_get spreadsheet ''sheets'' (JList []) of
                  Inl e \<Rightarrow> Inl e
                | Inr sheets \<Rightarrow>
                    (case py_iter sheets of
                       Inl e \<Rightarrow> Inl e
                     | Inr ss \<Rightarrow>
                         (case collect created_sheet_title ss of
                            Inl e \<Rightarrow> Inl e
                          | Inr titles \<Rightarrow>
                              Inr (JObj [
                                (''spreadsheetId'', spreadsheet_id),
                                (''title'', t),
                                (''sheets'', JList titles),
                                (''folder'',
                                   JStr (case fid of
                                           None \<Rightarrow> ''root''
                                         | Some f \<Rightarrow> if f \<noteq> [] then f else ''root''))]))))))"

definition create_spreadsheet :: "remote \<Rightarrow> string \<Rightarrow> world \<Rightarrow> (fault + json) \<times> world" where
  "create_spreadsheet R title w =
     (let fid = folder_id (lifespan_context w);
          spreadsheet_body = JObj [(''properties'', JObj [(''title'', JStr title)])]
      in case execute R (sheets_service (lifespan_context w))
                (SpreadsheetsCreate spreadsheet_body ''spreadsheetId,properties,sheets'') w of
           (Inl e, w1) \<Rightarrow> (Inl e, w1)
         | (Inr spreadsheet, w1) \<Rightarrow>
             (case py_get spreadsheet ''spreadsheetId'' JNull of
                Inl e \<Rightarrow> (Inl e, w1)
              | Inr spreadsheet_id \<Rightarrow>
                  let w2 = print_line (SpreadsheetCreated spreadsheet_id) w1;
                      w3 = (case fid of
                              None \<Rightarrow> w2
                            | Some f \<Rightarrow>
                                if f \<noteq> [] then
                                  (case move_to_folder R spreadsheet_id f w2 of
                                     (None, w') \<Rightarrow> w'
                                   | (Some e, w') \<Rightarrow> print_line (MoveWarning e) w')
                                else w2)
                  in (created_result spreadsheet spreadsheet_id title fid, w3)))"

subsection \<open>create\_sheet, list\_spreadsheets\<close>

definition create_sheet :: "remote \<Rightarrow> string \<Rightarrow> string \<Rightarrow> world \<Rightarrow> (fault + json) \<times> world" where
  "create_sheet R spreadsheet_id title w =
     (let request_body =
            JObj [(''requests'', JList [
              JObj [(''addSheet'', JObj [(''properties'', JObj [(''title'', JStr title)])])]])]
      in case execute R (sheets_service (lifespan_context w))
                (SpreadsheetsBatchUpdate spreadsheet_id request_body) w of
           (Inl e, w1) \<Rightarrow> (Inl e, w1)
         | (Inr result, w1) \<Rightarrow>
             (case py_getitem result ''replies'' of
                Inl e \<Rightarrow> (Inl e, w1)
              | Inr replies \<Rightarrow>
                  (case py_getitem0 replies of
                     Inl e \<Rightarrow> (Inl e, w1)
                   | Inr reply \<Rightarrow>
                       (case py_getitem reply ''addSheet'' of
                          Inl e \<Rightarrow> (Inl e, w1)
                        | Inr added \<Rightarrow>
                            (case py_getitem added ''properties'' of
                               Inl e \<Rightarrow> (Inl e, w1)
                             | Inr new_sheet_props \<Rightarrow>
                                 (case py_getitem new_sheet_props ''sheetId'' of
                                    Inl e \<Rightarrow> (Inl e, w1)
                                  | Inr i \<Rightarrow>
                                      (case py_getitem new_sheet_props ''title'' of
                                         Inl e \<Rightarrow> (Inl e, w1)
                                       | Inr t \<Rightarrow>
                                           (case py_get new_sheet_props ''index'' JNull of
                                              Inl e \<Rightarrow> (Inl e, w1)
                                            | Inr ix \<Rightarrow>
                                                (Inr (JObj [
                                                   (''sheetId'', i),
                                                   (''title'', t),
                                                   (''index'', ix),
                                                   (''spreadsheetId'', JStr spreadsheet_id)]), w1)))))))))"

definition listed_file :: "json \<Rightarrow> fault + json" where
  "listed_file sheet =
     (case py_getitem sheet ''id'' of
        Inl e \<Rightarrow> Inl e
      | Inr i \<Rightarrow>
          (case py_getitem sheet ''name'' of
             Inl e \<Rightarrow> Inl e
           | Inr n \<Rightarrow> Inr (JObj [(''id'', i), (''title'', n)])))"

definition list_spreadsheets :: "remote \<Rightarrow> world \<Rightarrow> (fault + json) \<times> world" where
  "list_spreadsheets R w =
     (let fid = folder_id (lifespan_context w);
          query0 = ''mimeType='' @ [CHR 0x27] @ ''application/vnd.google-apps.spreadsheet'' @ [CHR 0x27];
          query = (case fid of
                     None \<Rightarrow> query0
                   | Some f \<Rightarrow>
                       if f \<noteq> [] then query0 @ '' and '' @ [CHR 0x27] @ f @ [CHR 0x27] @ '' in parents''
                       else query0);
          w0 = (case fid of
                  None \<Rightarrow> print_line SearchingMyDrive w
                | Some f \<Rightarrow>
                    if f \<noteq> [] then print_line (SearchingFolder f) w
                    else print_line SearchingMyDrive w)
      in case execute R (drive_service (lifespan_context w))
                (FilesList query ''drive'' ''files(id, name)'' ''modifiedTime desc'') w0 of
           (Inl e, w1) \<Rightarrow> (Inl e, w1)
         | (Inr results, w1) \<Rightarrow>
             (case py_get results ''files'' (JList []) of
                Inl e \<Rightarrow> (Inl e, w1)
              | Inr files \<Rightarrow>
                  (case py_iter files of
                     Inl e \<Rightarrow> (Inl e, w1)
                   | Inr spreadsheets \<Rightarrow>
                       (case collect listed_file spreadsheets of
                          Inl e \<Rightarrow> (Inl e, w1)
                        | Inr out \<Rightarrow> (Inr (JList out), w1)))))"

section \<open>Dispatch of tool calls\<close>

text \<open>
  The host server invokes the tool named by each call it receives, one after the other,
  on the state the previous call left.
\<close>

datatype tool_call =
    GetSheetData string string "string option"
  | UpdateCells string string string json
  | BatchUpdateCells string string "(string \<times> json) list"
  | AddRows string string int "int option"
  | AddColumns string string int "int option"
  | ListSheets string
  | CopySheet string string string string
  | RenameSheet string string string
  | GetSpreadsheetInfo string
  | CreateSpreadsheet string
  | CreateSheet string string
  | ListSpreadsheets

fun invoke :: "remote \<Rightarrow> (json \<Rightarrow> string) \<Rightarrow> tool_call \<Rightarrow> world \<Rightarrow> (fault + json) \<times> world" where
  "invoke R dumps (GetSheetData i s r) w = get_sheet_data R i s r w"
| "invoke R dumps (UpdateCells i s r d) w = update_cells R i s r d w"
| "invoke R dumps (BatchUpdateCells i s rs) w = batch_update_cells R i s rs w"
| "invoke R dumps (AddRows i s c st) w = add_rows R i s c st w"
| "invoke R dumps (AddColumns i s c st) w = add_columns R i s c st w"
| "invoke R dumps (ListSheets i) w = list_sheets R i w"
| "invoke R dumps (CopySheet a b c d) w = copy_sheet R a b c d w"
| "invoke R dumps (RenameSheet i s n) w = rename_sheet R i s n w"
| "invoke R dumps (GetSpreadsheetInfo i) w = get_spreadsheet_info R dumps i w"
| "invoke R dumps (CreateSpreadsheet t) w = create_spreadsheet R t w"
| "invoke R dumps (CreateSheet i t) w = create_sheet R i t w"
| "invoke R dumps ListSpreadsheets w = list_spreadsheets R w"

fun serve :: "remote \<Rightarrow> (json \<Rightarrow> string) \<Rightarrow> tool_call list \<Rightarrow> world \<Rightarrow> (fault + json) list \<times> world" where
  "serve R dumps [] w = ([], w)"
| "serve R dumps (c # cs) w =
     (case invoke R dumps c w of
        (r, w1) \<Rightarrow> (case serve R dumps cs w1 of (rs, w2) \<Rightarrow> (r # rs, w2)))"

section \<open>Startup: credential resolution and construction of the context\<close>

text \<open>
  The four module constants read from the environment.
\<close>

record config =
  TOKEN_PATH :: string
  CREDENTIALS_PATH :: string
  SERVICE_ACCOUNT_PATH :: string
  DRIVE_FOLDER_ID :: string

text \<open>
  What \<^verbatim>\<open>spreadsheet_lifespan\<close> reads of a credential object: its validity, whether it
  has expired, its refresh token and its serialised form.
\<close>

record credentials =
  valid :: bool
  expired :: bool
  refresh_token :: "string option"
  to_json :: string

text \<open>
  The Google authentication and discovery libraries are outside the repository; what they
  return is a parameter. The functions that read a file take its content.
\<close>

record auth_library =
  from_service_account_file :: "string \<Rightarrow> fault + credentials"
  from_authorized_user_info :: "string \<Rightarrow> fault + credentials"
  refresh :: "credentials \<Rightarrow> fault + credentials"
  run_local_server :: "string \<Rightarrow> fault + credentials"
  build :: "string \<Rightarrow> string \<Rightarrow> credentials \<Rightarrow> fault + handle"

text \<open>One constructor per \<^verbatim>\<open>print\<close> statement of \<^verbatim>\<open>spreadsheet_lifespan\<close>.\<close>

datatype startup_line =
    UsingServiceAccount
  | WorkingWithFolder string
  | ServiceAccountError fault
  | FallingBackToOAuth
  | UsingOAuthFlow

text \<open>
  The machine the process starts on: the files by path, every write to a file in order
  (path and content written), and the lines printed. Opening a file for writing is taken
  to succeed.
\<close>

record machine =
  files :: "string \<Rightarrow> string option"
  written :: "(string \<times> string) list"
  startup_out :: "startup_line list"

definition say :: "startup_line list \<Rightarrow> machine \<Rightarrow> machine" where
  "say ls m = m\<lparr>startup_out := startup_out m @ ls\<rparr>"

definition write_file :: "string \<Rightarrow> string \<Rightarrow> machine \<Rightarrow> machine" where
  "write_file path content m =
     m\<lparr>files := (files m)(path \<mapsto> content), written := written m @ [(path, content)]\<rparr>"

text \<open>
  Lines 47 to 59: the service-account attempt. The result is the value of \<^verbatim>\<open>creds\<close>
  after it, \<^verbatim>\<open>None\<close> when the path is empty, the file is missing or loading it raised.
\<close>

definition service_account_step ::
  "auth_library \<Rightarrow> config \<Rightarrow> machine \<Rightarrow> credentials option \<times> machine" where
  "service_account_step L c m =
     (if SERVICE_ACCOUNT_PATH c \<noteq> [] then
        (case files m (SERVICE_ACCOUNT_PATH c) of
           None \<Rightarrow> (None, m)
         | Some content \<Rightarrow>
             (case from_service_account_file L content of
                Inr creds \<Rightarrow>
                  (Some creds,
                   say [UsingServiceAccount,
                        WorkingWithFolder
                          (if DRIVE_FOLDER_ID c \<noteq> [] then DRIVE_FOLDER_ID c else ''Not specified'')] m)
              | Inl e \<Rightarrow> (None, say [ServiceAccountError e, FallingBackToOAuth] m)))
      else (None, m))"

text \<open>
  Lines 63 to 78: the OAuth flow, entered when \<^verbatim>\<open>creds\<close> is \<^verbatim>\<open>None\<close>. A fault of the
  libraries leaves the function. \<open>run_flow\<close> is lines 73 and 74 (a missing client-secret
  file raises), \<open>save_token\<close> lines 77 and 78, reached only inside the branch of a token
  that is absent or not valid.
\<close>

definition run_flow :: "auth_library \<Rightarrow> config \<Rightarrow> machine \<Rightarrow> fault + credentials" where
  "run_flow L c m =
     (case files m (CREDENTIALS_PATH c) of
        None \<Rightarrow> Inl (FileNotFoundError (CREDENTIALS_PATH c))
      | Some secrets \<Rightarrow> run_local_server L secrets)"

definition save_token ::
  "config \<Rightarrow> fault + credentials \<Rightarrow> machine \<Rightarrow> (fault + credentials) \<times> machine" where
  "save_token c obtained m =
     (case obtained of
        Inl e \<Rightarrow> (Inl e, m)
      | Inr creds \<Rightarrow> (Inr creds, write_file (TOKEN_PATH c) (to_json creds) m))"

definition oauth_step ::
  "auth_library \<Rightarrow> config \<Rightarrow> machine \<Rightarrow> (fault + credentials) \<times> machine" where
  "oauth_step L c m =
     (let m1 = say [UsingOAuthFlow] m
      in case files m1 (TOKEN_PATH c) of
           None \<Rightarrow> save_token c (run_flow L c m1) m1
         | Some content \<Rightarrow>
             (case from_authorized_user_info L content of
                Inl e \<Rightarrow> (Inl e, m1)
              | Inr creds \<Rightarrow>
                  if \<not> valid creds then
                    (if expired creds \<and> truthy (refresh_token creds)
                     then save_token c (refresh L creds) m1
                     else save_token c (run_flow L c m1) m1)
                  else (Inr creds, m1)))"

definition resolve_credentials ::
  "auth_library \<Rightarrow> config \<Rightarrow> machine \<Rightarrow> (fault + credentials) \<times> machine" where
  "resolve_credentials L c m =
     (case service_account_step L c m of
        (Some creds, m1) \<Rightarrow> (Inr creds, m1)
      | (None, m1) \<Rightarrow> oauth_step L c m1)"

text \<open>
  \<^verbatim>\<open>spreadsheet_lifespan\<close> up to its \<^verbatim>\<open>yield\<close>: the context handed to every tool
  invocation, or the fault that ends startup.
\<close>

definition spreadsheet_lifespan ::
  "auth_library \<Rightarrow> config \<Rightarrow> machine \<Rightarrow> (fault + SpreadsheetContext) \<times> machine" where
  "spreadsheet_lifespan L c m =
     (case resolve_credentials L c m of
        (Inl e, m1) \<Rightarrow> (Inl e, m1)
      | (Inr creds, m1) \<Rightarrow>
          (case build L ''sheets'' ''v4'' creds of
             Inl e \<Rightarrow> (Inl e, m1)
           | Inr sheets \<Rightarrow>
               (case build L ''drive'' ''v3'' creds of
                  Inl e \<Rightarrow> (Inl e, m1)
                | Inr drive \<Rightarrow>
                    (Inr \<lparr>sheets_service = sheets, drive_service = drive,
                          folder_id = (if DRIVE_FOLDER_ID c \<noteq> [] then Some (DRIVE_FOLDER_ID c)
                                       else None)\<rparr>, m1))))"

section \<open>Example inputs\<close>

text \<open>Concrete responses and states on which the properties below are evaluated.\<close>

definition sheet_descriptor :: "string \<Rightarrow> int \<Rightarrow> json" where
  "sheet_descriptor t i = JObj [(''properties'', JObj [(''sheetId'', JInt i), (''title'', JStr t)])]"

definition example_spreadsheet :: json where
  "example_spreadsheet =
     JObj [(''spreadsheetId'', JStr ''abc123''),
           (''sheets'', JList [sheet_descriptor ''Dat'' 3, sheet_descriptor ''data'' 5,
                               sheet_descriptor ''Data'' 7, sheet_descriptor ''Data'' 9])]"

definition example_context :: SpreadsheetContext where
  "example_context = \<lparr>sheets_service = 1, drive_service = 2, folder_id = None\<rparr>"

definition example_world :: world where
  "example_world = \<lparr>lifespan_context = example_context, issued = [], printed = []\<rparr>"

text \<open>A remote that answers every request with the number of requests it has seen.\<close>

definition echo_remote :: remote where
  "echo_remote history call = Inr (JObj [(''requestsBefore'', JInt (int (length history)))])"

text \<open>A remote that answers every metadata request with the example spreadsheet.\<close>

definition metadata_remote :: remote where
  "metadata_remote history call =
     (case snd call of
        SpreadsheetsGet i \<Rightarrow> Inr example_spreadsheet
      | _ \<Rightarrow> Inr (JObj [(''requestsBefore'', JInt (int (length history)))]))"

text \<open>
  A remote that answers a metadata request with the example spreadsheet and a copy
  request with the given sheet properties.
\<close>

definition copy_remote :: "json \<Rightarrow> remote" where
  "copy_remote copied history call =
     (case snd call of
        SpreadsheetsGet i \<Rightarrow> Inr example_spreadsheet
      | SheetsCopyTo i sid body \<Rightarrow> Inr copied
      | _ \<Rightarrow> Inr (JObj [(''requestsBefore'', JInt (int (length history)))]))"

text \<open>
  The requests a tool added to the state, and whether one of them is a structural batch
  update (in \<^verbatim>\<open>copy_sheet\<close> the only such request is the rename).
\<close>

definition new_requests :: "world \<Rightarrow> world \<Rightarrow> api_request list" where
  "new_requests w w' = map snd (drop (length (issued w)) (issued w'))"

fun is_batch_update :: "api_request \<Rightarrow> bool" where
  "is_batch_update (SpreadsheetsBatchUpdate i body) = True"
| "is_batch_update _ = False"

section \<open>Properties\<close>

subsection \<open>The lookup loop\<close>

lemma scan_sheets_skip:
  "\<forall>s\<in>set pre. \<exists>t. descriptor_title s = Inr t \<and> t \<noteq> JStr sheet \<Longrightarrow>
   scan_sheets (pre @ rest) sheet = scan_sheets rest sheet"
  by (induction pre) (auto simp: descriptor_title_def split: sum.splits)

lemma scan_sheets_no_match:
  "\<forall>s\<in>set ss. \<exists>t. descriptor_title s = Inr t \<and> t \<noteq> JStr sheet \<Longrightarrow>
   scan_sheets ss sheet = Inr JNull"
  using scan_sheets_skip [of ss sheet "[]"] by simp

lemma find_sheet_id_no_match:
  "py_getitem spreadsheet ''sheets'' = Inr (JList ss) \<Longrightarrow>
   \<forall>s\<in>set ss. \<exists>t. descriptor_title s = Inr t \<and> t \<noteq> JStr sheet \<Longrightarrow>
   find_sheet_id spreadsheet sheet = Inr JNull"
  by (simp add: find_sheet_id_def scan_sheets_no_match)

text \<open>
  Claim C6. The lookup compares whole titles for equality, so it is case-sensitive and a
  title that is only a part of the target (or the target a part of it) does not match:
  when every descriptor of the list has a title different from the target, the lookup
  ends with \<^verbatim>\<open>None\<close>; and when the descriptors before \<open>d\<close> all have titles different from
  the target and \<open>d\<close> has exactly the target as its title, the lookup returns the sheet id
  of \<open>d\<close>, whatever follows \<open>d\<close> in the list.
\<close>

theorem find_sheet_id_first_exact_match:
  assumes "py_getitem spreadsheet ''sheets'' = Inr (JList ss)"
  shows "((\<forall>s\<in>set ss. \<exists>t. descriptor_title s = Inr t \<and> t \<noteq> JStr sheet) \<longrightarrow>
            find_sheet_id spreadsheet sheet = Inr JNull)
       \<and> (ss = pre @ d # post
            \<and> (\<forall>s\<in>set pre. \<exists>t. descriptor_title s = Inr t \<and> t \<noteq> JStr sheet)
            \<and> py_getitem d ''properties'' = Inr p
            \<and> py_getitem p ''title'' = Inr (JStr sheet)
            \<and> py_getitem p ''sheetId'' = Inr i \<longrightarrow>
            find_sheet_id spreadsheet sheet = Inr i)"
proof (intro conjI impI)
  assume "\<forall>s\<in>set ss. \<exists>t. descriptor_title s = Inr t \<and> t \<noteq> JStr sheet"
  with assms show "find_sheet_id spreadsheet sheet = Inr JNull"
    by (rule find_sheet_id_no_match)
next
  assume h: "ss = pre @ d # post
            \<and> (\<forall>s\<in>set pre. \<exists>t. descriptor_title s = Inr t \<and> t \<noteq> JStr sheet)
            \<and> py_getitem d ''properties'' = Inr p
            \<and> py_getitem p ''title'' = Inr (JStr sheet)
            \<and> py_getitem p ''sheetId'' = Inr i"
  then have "scan_sheets ss sheet = scan_sheets (d # post) sheet"
    using scan_sheets_skip [of pre sheet "d # post"] by simp
  also have "\<dots> = Inr i" using h by simp
  finally show "find_sheet_id spreadsheet sheet = Inr i"
    using assms by (simp add: find_sheet_id_def)
qed

theorem find_sheet_id_first_exact_match_witness:
  "find_sheet_id example_spreadsheet ''Data'' = Inr (JInt 7)
   \<and> find_sheet_id example_spreadsheet ''Da'' = Inr JNull"
proof -
  have s: "py_getitem example_spreadsheet ''sheets'' =
        Inr (JList ([sheet_descriptor ''Dat'' 3, sheet_descriptor ''data'' 5]
               @ sheet_descriptor ''Data'' 7 # [sheet_descriptor ''Data'' 9]))"
    by (simp add: example_spreadsheet_def)
  have a: "find_sheet_id example_spreadsheet ''Data'' = Inr (JInt 7)"
    using find_sheet_id_first_exact_match [OF s, of "''Data''"
        "[sheet_descriptor ''Dat'' 3, sheet_descriptor ''data'' 5]" "sheet_descriptor ''Data'' 7"
        "[sheet_descriptor ''Data'' 9]" "JObj [(''sheetId'', JInt 7), (''title'', JStr ''Data'')]" "JInt 7"]
    by (simp add: sheet_descriptor_def descriptor_title_def)
  have b: "find_sheet_id example_spreadsheet ''Da'' = Inr JNull"
    using find_sheet_id_first_exact_match [OF s, of "''Da''"]
    by (simp add: sheet_descriptor_def descriptor_title_def)
  from a b show ?thesis by simp
qed

subsection \<open>Cell updates\<close>

lemma batch_data_map:
  "batch_data sheet ranges data =
     data @ map (\<lambda>(range_str, vals).
                   JObj [(''range'', JStr (sheet @ ''!'' @ range_str)), (''values'', vals)]) ranges"
  by (induction ranges arbitrary: data) auto

text \<open>
  Claim C7. \<^verbatim>\<open>update_cells\<close> issues exactly one request, a values update on the range
  made of the sheet name, an exclamation mark and the A1 range, with input option
  \<^verbatim>\<open>USER_ENTERED\<close>. \<^verbatim>\<open>batch_update_cells\<close> issues exactly one request, a values batch
  update with input option \<^verbatim>\<open>USER_ENTERED\<close> whose data has one entry per given range, in
  order, each qualified with the same sheet name. In both the result is the answer of the
  remote service to that request.
\<close>

theorem cell_updates_are_sheet_qualified:
  "update_cells R spreadsheet_id sheet a1_range data w =
     (R (issued w)
        (sheets_service (lifespan_context w),
         ValuesUpdate spreadsheet_id (sheet @ ''!'' @ a1_range) ''USER_ENTERED''
           (JObj [(''values'', data)])),
      w\<lparr>issued := issued w @
           [(sheets_service (lifespan_context w),
             ValuesUpdate spreadsheet_id (sheet @ ''!'' @ a1_range) ''USER_ENTERED''
               (JObj [(''values'', data)]))]\<rparr>)
   \<and> batch_update_cells R spreadsheet_id sheet ranges w =
     (R (issued w)
        (sheets_service (lifespan_context w),
         ValuesBatchUpdate spreadsheet_id
           (JObj [(''valueInputOption'', JStr ''USER_ENTERED''),
                  (''data'', JList (map (\<lambda>(range_str, vals).
                       JObj [(''range'', JStr (sheet @ ''!'' @ range_str)), (''values'', vals)])
                     ranges))])),
      w\<lparr>issued := issued w @
           [(sheets_service (lifespan_context w),
             ValuesBatchUpdate spreadsheet_id
               (JObj [(''valueInputOption'', JStr ''USER_ENTERED''),
                      (''data'', JList (map (\<lambda>(range_str, vals).
                           JObj [(''range'', JStr (sheet @ ''!'' @ range_str)), (''values'', vals)])
                         ranges))]))]\<rparr>)"
  by (simp add: update_cells_def batch_update_cells_def execute_def batch_data_map Let_def)

theorem cell_updates_are_sheet_qualified_witness:
  "issued (snd (update_cells echo_remote ''abc123'' ''Sheet1'' ''A1:B2''
             (JList [JList [JInt 1, JInt 2], JList [JInt 3, JInt 4]]) example_world)) =
     [(1, ValuesUpdate ''abc123'' ''Sheet1!A1:B2'' ''USER_ENTERED''
            (JObj [(''values'', JList [JList [JInt 1, JInt 2], JList [JInt 3, JInt 4]])]))]
   \<and> issued (snd (batch_update_cells echo_remote ''abc123'' ''Sheet1''
             [(''A1:B2'', JList [JList [JInt 1]]), (''D1'', JList [JList [JStr ''a'']])] example_world)) =
     [(1, ValuesBatchUpdate ''abc123''
            (JObj [(''valueInputOption'', JStr ''USER_ENTERED''),
                   (''data'', JList [
                      JObj [(''range'', JStr ''Sheet1!A1:B2''), (''values'', JList [JList [JInt 1]])],
                      JObj [(''range'', JStr ''Sheet1!D1''), (''values'', JList [JList [JStr ''a'']])]])]))]"
  using cell_updates_are_sheet_qualified [of echo_remote "''abc123''" "''Sheet1''" "''A1:B2''"
      "JList [JList [JInt 1, JInt 2], JList [JInt 3, JInt 4]]" example_world
      "[(''A1:B2'', JList [JList [JInt 1]]), (''D1'', JList [JList [JStr ''a'']])]"]
  by (simp add: example_world_def example_context_def)

subsection \<open>Structural inserts\<close>

text \<open>
  Claim C5. When the lookup finds a sheet id, \<^verbatim>\<open>add_rows\<close> and \<^verbatim>\<open>add_columns\<close> issue,
  after the metadata request, exactly one batch update holding one \<^verbatim>\<open>insertDimension\<close>
  request on that sheet id. With the start index omitted it has \<^verbatim>\<open>startIndex\<close> 0,
  \<^verbatim>\<open>endIndex\<close> equal to the count and \<^verbatim>\<open>inheritFromBefore\<close> false; with a start index
  \<open>s\<close> it has \<^verbatim>\<open>startIndex\<close> \<open>s\<close>, \<^verbatim>\<open>endIndex\<close> \<open>s + count\<close> and
  \<^verbatim>\<open>inheritFromBefore\<close> true exactly when \<open>s > 0\<close>. The dimension is \<^verbatim>\<open>ROWS\<close> for
  \<^verbatim>\<open>add_rows\<close> and \<^verbatim>\<open>COLUMNS\<close> for \<^verbatim>\<open>add_columns\<close>.
\<close>

theorem insert_request_indices:
  assumes "R (issued w) (sheets_service (lifespan_context w), SpreadsheetsGet spreadsheet_id)
             = Inr spreadsheet"
      and "find_sheet_id spreadsheet sheet = Inr sheet_id"
      and "sheet_id \<noteq> JNull"
  shows "issued (snd (add_rows R spreadsheet_id sheet count None w)) =
           issued w @
           [(sheets_service (lifespan_context w), SpreadsheetsGet spreadsheet_id),
            (sheets_service (lifespan_context w), SpreadsheetsBatchUpdate spreadsheet_id
               (JObj [(''requests'', JList [JObj [(''insertDimension'', JObj [
                  (''range'', JObj [(''sheetId'', sheet_id), (''dimension'', JStr ''ROWS''),
                                    (''startIndex'', JInt 0), (''endIndex'', JInt count)]),
                  (''inheritFromBefore'', JBool False)])]])]))]
       \<and> issued (snd (add_rows R spreadsheet_id sheet count (Some s) w)) =
           issued w @
           [(sheets_service (lifespan_context w), SpreadsheetsGet spreadsheet_id),
            (sheets_service (lifespan_context w), SpreadsheetsBatchUpdate spreadsheet_id
               (JObj [(''requests'', JList [JObj [(''insertDimension'', JObj [
                  (''range'', JObj [(''sheetId'', sheet_id), (''dimension'', JStr ''ROWS''),
                                    (''startIndex'', JInt s), (''endIndex'', JInt (s + count))]),
                  (''inheritFromBefore'', JBool (s > 0))])]])]))]
       \<and> issued (snd (add_columns R spreadsheet_id sheet count None w)) =
           issued w @
           [(sheets_service (lifespan_context w), SpreadsheetsGet spreadsheet_id),
            (sheets_service (lifespan_context w), SpreadsheetsBatchUpdate spreadsheet_id
               (JObj [(''requests'', JList [JObj [(''insertDimension'', JObj [
                  (''range'', JObj [(''sheetId'', sheet_id), (''dimension'', JStr ''COLUMNS''),
                                    (''startIndex'', JInt 0), (''endIndex'', JInt count)]),
                  (''inheritFromBefore'', JBool False)])]])]))]
       \<and> issued (snd (add_columns R spreadsheet_id sheet count (Some s) w)) =
           issued w @
           [(sheets_service (lifespan_context w), SpreadsheetsGet spreadsheet_id),
            (sheets_service (lifespan_context w), SpreadsheetsBatchUpdate spreadsheet_id
               (JObj [(''requests'', JList [JObj [(''insertDimension'', JObj [
                  (''range'', JObj [(''sheetId'', sheet_id), (''dimension'', JStr ''COLUMNS''),
                                    (''startIndex'', JInt s), (''endIndex'', JInt (s + count))]),
                  (''inheritFromBefore'', JBool (s > 0))])]])]))]"
  using assms by (simp add: add_rows_def add_columns_def execute_def Let_def)

theorem insert_request_indices_witness:
  "issued (snd (add_rows metadata_remote ''abc123'' ''Data'' 3 None example_world)) =
     [(1, SpreadsheetsGet ''abc123''),
      (1, SpreadsheetsBatchUpdate ''abc123''
            (JObj [(''requests'', JList [JObj [(''insertDimension'', JObj [
               (''range'', JObj [(''sheetId'', JInt 7), (''dimension'', JStr ''ROWS''),
                                 (''startIndex'', JInt 0), (''endIndex'', JInt 3)]),
               (''inheritFromBefore'', JBool False)])]])]))]
   \<and> issued (snd (add_columns metadata_remote ''abc123'' ''Data'' 3 (Some 2) example_world)) =
     [(1, SpreadsheetsGet ''abc123''),
      (1, SpreadsheetsBatchUpdate ''abc123''
            (JObj [(''requests'', JList [JObj [(''insertDimension'', JObj [
               (''range'', JObj [(''sheetId'', JInt 7), (''dimension'', JStr ''COLUMNS''),
                                 (''startIndex'', JInt 2), (''endIndex'', JInt 5)]),
               (''inheritFromBefore'', JBool True)])]])]))]
   \<and> issued (snd (add_rows metadata_remote ''abc123'' ''Data'' 3 (Some 0) example_world)) =
     [(1, SpreadsheetsGet ''abc123''),
      (1, SpreadsheetsBatchUpdate ''abc123''
            (JObj [(''requests'', JList [JObj [(''insertDimension'', JObj [
               (''range'', JObj [(''sheetId'', JInt 7), (''dimension'', JStr ''ROWS''),
                                 (''startIndex'', JInt 0), (''endIndex'', JInt 3)]),
               (''inheritFromBefore'', JBool False)])]])]))]"
proof -
  have m: "metadata_remote (issued example_world)
             (sheets_service (lifespan_context example_world), SpreadsheetsGet ''abc123'')
           = Inr example_spreadsheet"
    by (simp add: metadata_remote_def)
  have f: "find_sheet_id example_spreadsheet ''Data'' = Inr (JInt 7)"
    by (simp add: find_sheet_id_def example_spreadsheet_def sheet_descriptor_def)
  have n: "JInt 7 \<noteq> JNull" by simp
  show ?thesis
    using insert_request_indices [where R = metadata_remote and w = example_world
            and spreadsheet_id = "''abc123''" and count = 3 and s = 2, OF m f n]
          insert_request_indices [where R = metadata_remote and w = example_world
            and spreadsheet_id = "''abc123''" and count = 3 and s = 0, OF m f n]
    by (simp add: example_world_def example_context_def)
qed

subsection \<open>Sheet not found\<close>

text \<open>
  Claim C1, as stated, fails for \<^verbatim>\<open>copy_sheet\<close>: its not-found result reads
  \<^verbatim>\<open>Source sheet '<name>' not found\<close>, not \<^verbatim>\<open>Sheet '<name>' not found\<close>.
\<close>

theorem copy_sheet_not_found_message_counterexample:
  "fst (copy_sheet metadata_remote ''abc123'' ''Missing'' ''dst456'' ''Copy'' example_world)
     = Inr (JObj [(''error'', JStr ''Source sheet 'Missing' not found'')])
   \<and> fst (copy_sheet metadata_remote ''abc123'' ''Missing'' ''dst456'' ''Copy'' example_world)
     \<noteq> Inr (JObj [(''error'', JStr ''Sheet 'Missing' not found'')])"
  by (simp add: copy_sheet_def execute_def metadata_remote_def example_world_def
      example_context_def find_sheet_id_def example_spreadsheet_def sheet_descriptor_def
      source_sheet_not_found_def)

text \<open>
  Claim C1, amended. When the metadata request succeeds and every sheet descriptor it
  lists has a title different from the target name, each of the four tools returns a
  result (not a fault) and issues no request after the metadata request. The result is
  \<^verbatim>\<open>{"error": "Sheet '<name>' not found"}\<close> for \<^verbatim>\<open>add_rows\<close>, \<^verbatim>\<open>add_columns\<close> and
  \<^verbatim>\<open>rename_sheet\<close>, and \<^verbatim>\<open>{"error": "Source sheet '<name>' not found"}\<close> for
  \<^verbatim>\<open>copy_sheet\<close>.
\<close>

theorem sheet_not_found_is_a_result:
  assumes "R (issued w) (sheets_service (lifespan_context w), SpreadsheetsGet spreadsheet_id)
             = Inr spreadsheet"
      and "py_getitem spreadsheet ''sheets'' = Inr (JList ss)"
      and "\<forall>s\<in>set ss. \<exists>t. descriptor_title s = Inr t \<and> t \<noteq> JStr sheet"
  shows "add_rows R spreadsheet_id sheet count start_row w =
           (Inr (JObj [(''error'', JStr (''Sheet '' @ [CHR 0x27] @ sheet @ [CHR 0x27] @ '' not found''))]),
            w\<lparr>issued := issued w @
                 [(sheets_service (lifespan_context w), SpreadsheetsGet spreadsheet_id)]\<rparr>)
       \<and> add_columns R spreadsheet_id sheet count start_column w =
           (Inr (JObj [(''error'', JStr (''Sheet '' @ [CHR 0x27] @ sheet @ [CHR 0x27] @ '' not found''))]),
            w\<lparr>issued := issued w @
                 [(sheets_service (lifespan_context w), SpreadsheetsGet spreadsheet_id)]\<rparr>)
       \<and> rename_sheet R spreadsheet_id sheet new_name w =
           (Inr (JObj [(''error'', JStr (''Sheet '' @ [CHR 0x27] @ sheet @ [CHR 0x27] @ '' not found''))]),
            w\<lparr>issued := issued w @
                 [(sheets_service (lifespan_context w), SpreadsheetsGet spreadsheet_id)]\<rparr>)
       \<and> copy_sheet R spreadsheet_id sheet dst_spreadsheet dst_sheet w =
           (Inr (JObj [(''error'',
                   JStr (''Source sheet '' @ [CHR 0x27] @ sheet @ [CHR 0x27] @ '' not found''))]),
            w\<lparr>issued := issued w @
                 [(sheets_service (lifespan_context w), SpreadsheetsGet spreadsheet_id)]\<rparr>)"
proof -
  have "find_sheet_id spreadsheet sheet = Inr JNull"
    using assms(2,3) by (rule find_sheet_id_no_match)
  with assms(1) show ?thesis
    by (simp add: add_rows_def add_columns_def rename_sheet_def copy_sheet_def execute_def
        sheet_not_found_def source_sheet_not_found_def)
qed

theorem sheet_not_found_is_a_result_witness:
  "rename_sheet metadata_remote ''abc123'' ''OldName'' ''NewName'' example_world =
     (Inr (JObj [(''error'', JStr ''Sheet 'OldName' not found'')]),
      example_world\<lparr>issued := [(1, SpreadsheetsGet ''abc123'')]\<rparr>)
   \<and> copy_sheet metadata_remote ''abc123'' ''OldName'' ''dst456'' ''Copy'' example_world =
     (Inr (JObj [(''error'', JStr ''Source sheet 'OldName' not found'')]),
      example_world\<lparr>issued := [(1, SpreadsheetsGet ''abc123'')]\<rparr>)"
proof -
  have m: "metadata_remote (issued example_world)
             (sheets_service (lifespan_context example_world), SpreadsheetsGet ''abc123'')
           = Inr example_spreadsheet"
    by (simp add: metadata_remote_def)
  have s: "py_getitem example_spreadsheet ''sheets'' =
             Inr (JList [sheet_descriptor ''Dat'' 3, sheet_descriptor ''data'' 5,
                         sheet_descriptor ''Data'' 7, sheet_descriptor ''Data'' 9])"
    by (simp add: example_spreadsheet_def)
  have d: "\<forall>s\<in>set [sheet_descriptor ''Dat'' 3, sheet_descriptor ''data'' 5,
                     sheet_descriptor ''Data'' 7, sheet_descriptor ''Data'' 9].
             \<exists>t. descriptor_title s = Inr t \<and> t \<noteq> JStr ''OldName''"
    by (simp add: sheet_descriptor_def descriptor_title_def)
  show ?thesis
    using sheet_not_found_is_a_result [where R = metadata_remote and w = example_world
        and spreadsheet_id = "''abc123''" and new_name = "''NewName''"
        and dst_spreadsheet = "''dst456''" and dst_sheet = "''Copy''", OF m s d]
    by (simp add: example_world_def example_context_def)
qed

subsection \<open>Copying a sheet\<close>

lemma py_in_obj: "py_in k (JObj kvs) = Inr (map_of kvs k \<noteq> None)"
  by (simp add: map_of_eq_None_iff)

text \<open>
  Claim C9. When the lookup finds the source sheet and the copy request answers with a
  value that does not contain \<^verbatim>\<open>'title'\<close>, \<^verbatim>\<open>copy_sheet\<close> issues no rename: the requests
  are the metadata request and the copy request, and the result is \<^verbatim>\<open>{"copy": <response>}\<close>,
  whatever the requested destination name is.
\<close>

theorem copy_without_title_is_not_renamed:
  assumes "R (issued w) (sheets_service (lifespan_context w), SpreadsheetsGet src_spreadsheet)
             = Inr src"
      and "find_sheet_id src src_sheet = Inr src_sheet_id"
      and "src_sheet_id \<noteq> JNull"
      and "R (issued w @ [(sheets_service (lifespan_context w), SpreadsheetsGet src_spreadsheet)])
             (sheets_service (lifespan_context w),
              SheetsCopyTo src_spreadsheet src_sheet_id
                (JObj [(''destinationSpreadsheetId'', JStr dst_spreadsheet)]))
             = Inr copy_result"
      and "py_in ''title'' copy_result = Inr False"
  shows "copy_sheet R src_spreadsheet src_sheet dst_spreadsheet dst_sheet w =
           (Inr (JObj [(''copy'', copy_result)]),
            w\<lparr>issued := issued w @
                 [(sheets_service (lifespan_context w), SpreadsheetsGet src_spreadsheet),
                  (sheets_service (lifespan_context w),
                   SheetsCopyTo src_spreadsheet src_sheet_id
                     (JObj [(''destinationSpreadsheetId'', JStr dst_spreadsheet)]))]\<rparr>)"
  using assms by (simp add: copy_sheet_def execute_def)

theorem copy_without_title_is_not_renamed_witness:
  "copy_sheet (copy_remote (JObj [(''sheetId'', JInt 99), (''index'', JInt 4)]))
     ''abc123'' ''Data'' ''dst456'' ''Archive'' example_world =
     (Inr (JObj [(''copy'', JObj [(''sheetId'', JInt 99), (''index'', JInt 4)])]),
      example_world\<lparr>issued :=
        [(1, SpreadsheetsGet ''abc123''),
         (1, SheetsCopyTo ''abc123'' (JInt 7)
               (JObj [(''destinationSpreadsheetId'', JStr ''dst456'')]))]\<rparr>)"
proof -
  let ?R = "copy_remote (JObj [(''sheetId'', JInt 99), (''index'', JInt 4)])"
  have m: "?R (issued example_world)
             (sheets_service (lifespan_context example_world), SpreadsheetsGet ''abc123'')
           = Inr example_spreadsheet"
    by (simp add: copy_remote_def)
  have f: "find_sheet_id example_spreadsheet ''Data'' = Inr (JInt 7)"
    by (simp add: find_sheet_id_def example_spreadsheet_def sheet_descriptor_def)
  have n: "JInt 7 \<noteq> JNull" by simp
  have c: "?R (issued example_world @
                 [(sheets_service (lifespan_context example_world), SpreadsheetsGet ''abc123'')])
             (sheets_service (lifespan_context example_world),
              SheetsCopyTo ''abc123'' (JInt 7)
                (JObj [(''destinationSpreadsheetId'', JStr ''dst456'')]))
           = Inr (JObj [(''sheetId'', JInt 99), (''index'', JInt 4)])"
    by (simp add: copy_remote_def)
  have t: "py_in ''title'' (JObj [(''sheetId'', JInt 99), (''index'', JInt 4)]) = Inr False"
    by simp
  show ?thesis
    using copy_without_title_is_not_renamed [where R = ?R and w = example_world
        and dst_sheet = "''Archive''", OF m f n c t]
    by (simp add: example_world_def example_context_def)
qed

lemma copy_sheet_rename_key_cases:
  "(case fst (copy_sheet R a b c d w) of
      Inl e \<Rightarrow> True
    | Inr res \<Rightarrow>
        (py_in ''rename'' res = Inr True) =
          list_ex is_batch_update (new_requests w (snd (copy_sheet R a b c d w))))"
  by (simp add: copy_sheet_def execute_def new_requests_def source_sheet_not_found_def
      split: sum.split bool.split)

lemma copy_sheet_rename_key_iff:
  "fst (copy_sheet R a b c d w) = Inr res \<Longrightarrow>
   (py_in ''rename'' res = Inr True) =
     list_ex is_batch_update (new_requests w (snd (copy_sheet R a b c d w)))"
  using copy_sheet_rename_key_cases [where R = R and a = a and b = b and c = c and d = d and w = w]
  by simp

text \<open>
  Claim C2. For every normal result of \<^verbatim>\<open>copy_sheet\<close>, the result contains the key
  \<^verbatim>\<open>'rename'\<close> exactly when a structural batch update (the rename) is among the requests
  the call issued. When the lookup finds the source sheet and the copy request answers
  with sheet properties that carry a title: if the title equals the requested destination
  name, the requests are the metadata request and the copy request only, and the result is
  \<^verbatim>\<open>{"copy": ...}\<close>; if the title differs (and the properties carry the id of the copy),
  the requests are the metadata request, the copy request and one rename request on the
  destination spreadsheet, and the result is \<^verbatim>\<open>{"copy": ..., "rename": ...}\<close> when the
  rename succeeds.
\<close>

theorem copy_sheet_call_count:
  "(\<forall>res. fst (copy_sheet R src_spreadsheet src_sheet dst_spreadsheet dst_sheet w) = Inr res \<longrightarrow>
      (py_in ''rename'' res = Inr True) =
        list_ex is_batch_update
          (new_requests w (snd (copy_sheet R src_spreadsheet src_sheet dst_spreadsheet dst_sheet w))))
   \<and> (R (issued w) (sheets_service (lifespan_context w), SpreadsheetsGet src_spreadsheet) = Inr src
      \<and> find_sheet_id src src_sheet = Inr src_sheet_id
      \<and> src_sheet_id \<noteq> JNull
      \<and> R (issued w @ [(sheets_service (lifespan_context w), SpreadsheetsGet src_spreadsheet)])
           (sheets_service (lifespan_context w),
            SheetsCopyTo src_spreadsheet src_sheet_id
              (JObj [(''destinationSpreadsheetId'', JStr dst_spreadsheet)]))
          = Inr (JObj kvs)
      \<and> map_of kvs ''title'' = Some t \<longrightarrow>
        (t = JStr dst_sheet \<longrightarrow>
           copy_sheet R src_spreadsheet src_sheet dst_spreadsheet dst_sheet w =
             (Inr (JObj [(''copy'', JObj kvs)]),
              w\<lparr>issued := issued w @
                   [(sheets_service (lifespan_context w), SpreadsheetsGet src_spreadsheet),
                    (sheets_service (lifespan_context w),
                     SheetsCopyTo src_spreadsheet src_sheet_id
                       (JObj [(''destinationSpreadsheetId'', JStr dst_spreadsheet)]))]\<rparr>))
      \<and> (t \<noteq> JStr dst_sheet \<and> map_of kvs ''sheetId'' = Some copy_sheet_id \<longrightarrow>
           issued (snd (copy_sheet R src_spreadsheet src_sheet dst_spreadsheet dst_sheet w)) =
             issued w @
               [(sheets_service (lifespan_context w), SpreadsheetsGet src_spreadsheet),
                (sheets_service (lifespan_context w),
                 SheetsCopyTo src_spreadsheet src_sheet_id
                   (JObj [(''destinationSpreadsheetId'', JStr dst_spreadsheet)])),
                (sheets_service (lifespan_context w),
                 SpreadsheetsBatchUpdate dst_spreadsheet
                   (JObj [(''requests'', JList [JObj [(''updateSheetProperties'', JObj [
                      (''properties'', JObj [(''sheetId'', copy_sheet_id),
                                             (''title'', JStr dst_sheet)]),
                      (''fields'', JStr ''title'')])]])]))]
         \<and> (\<forall>rename_result.
               R (issued w @
                    [(sheets_service (lifespan_context w), SpreadsheetsGet src_spreadsheet),
                     (sheets_service (lifespan_context w),
                      SheetsCopyTo src_spreadsheet src_sheet_id
                        (JObj [(''destinationSpreadsheetId'', JStr dst_spreadsheet)]))])
                 (sheets_service (lifespan_context w),
                  SpreadsheetsBatchUpdate dst_spreadsheet
                    (JObj [(''requests'', JList [JObj [(''updateSheetProperties'', JObj [
                       (''properties'', JObj [(''sheetId'', copy_sheet_id),
                                              (''title'', JStr dst_sheet)]),
                       (''fields'', JStr ''title'')])]])]))
                 = Inr rename_result \<longrightarrow>
               fst (copy_sheet R src_spreadsheet src_sheet dst_spreadsheet dst_sheet w) =
                 Inr (JObj [(''copy'', JObj kvs), (''rename'', rename_result)]))))"
proof (intro conjI allI impI)
  fix res
  assume "fst (copy_sheet R src_spreadsheet src_sheet dst_spreadsheet dst_sheet w) = Inr res"
  then show "(py_in ''rename'' res = Inr True) =
        list_ex is_batch_update
          (new_requests w (snd (copy_sheet R src_spreadsheet src_sheet dst_spreadsheet dst_sheet w)))"
    by (rule copy_sheet_rename_key_iff)
next
  assume "R (issued w) (sheets_service (lifespan_context w), SpreadsheetsGet src_spreadsheet) = Inr src
      \<and> find_sheet_id src src_sheet = Inr src_sheet_id
      \<and> src_sheet_id \<noteq> JNull
      \<and> R (issued w @ [(sheets_service (lifespan_context w), SpreadsheetsGet src_spreadsheet)])
           (sheets_service (lifespan_context w),
            SheetsCopyTo src_spreadsheet src_sheet_id
              (JObj [(''destinationSpreadsheetId'', JStr dst_spreadsheet)]))
          = Inr (JObj kvs)
      \<and> map_of kvs ''title'' = Some t"
     and "t = JStr dst_sheet"
  then show "copy_sheet R src_spreadsheet src_sheet dst_spreadsheet dst_sheet w =
             (Inr (JObj [(''copy'', JObj kvs)]),
              w\<lparr>issued := issued w @
                   [(sheets_service (lifespan_context w), SpreadsheetsGet src_spreadsheet),
                    (sheets_service (lifespan_context w),
                     SheetsCopyTo src_spreadsheet src_sheet_id
                       (JObj [(''destinationSpreadsheetId'', JStr dst_spreadsheet)]))]\<rparr>)"
    by (simp add: copy_sheet_def execute_def py_in_obj del: py_in.simps)
next
  assume "R (issued w) (sheets_service (lifespan_context w), SpreadsheetsGet src_spreadsheet) = Inr src
      \<and> find_sheet_id src src_sheet = Inr src_sheet_id
      \<and> src_sheet_id \<noteq> JNull
      \<and> R (issued w @ [(sheets_service (lifespan_context w), SpreadsheetsGet src_spreadsheet)])
           (sheets_service (lifespan_context w),
            SheetsCopyTo src_spreadsheet src_sheet_id
              (JObj [(''destinationSpreadsheetId'', JStr dst_spreadsheet)]))
          = Inr (JObj kvs)
      \<and> map_of kvs ''title'' = Some t"
     and "t \<noteq> JStr dst_sheet \<and> map_of kvs ''sheetId'' = Some copy_sheet_id"
  then show "issued (snd (copy_sheet R src_spreadsheet src_sheet dst_spreadsheet dst_sheet w)) =
             issued w @
               [(sheets_service (lifespan_context w), SpreadsheetsGet src_spreadsheet),
                (sheets_service (lifespan_context w),
                 SheetsCopyTo src_spreadsheet src_sheet_id
                   (JObj [(''destinationSpreadsheetId'', JStr dst_spreadsheet)])),
                (sheets_service (lifespan_context w),
                 SpreadsheetsBatchUpdate dst_spreadsheet
                   (JObj [(''requests'', JList [JObj [(''updateSheetProperties'', JObj [
                      (''properties'', JObj [(''sheetId'', copy_sheet_id),
                                             (''title'', JStr dst_sheet)]),
                      (''fields'', JStr ''title'')])]])]))]"
    by (simp add: copy_sheet_def execute_def py_in_obj rename_request_def del: py_in.simps split: sum.splits)
next
  fix rename_result
  assume "R (issued w) (sheets_service (lifespan_context w), SpreadsheetsGet src_spreadsheet) = Inr src
      \<and> find_sheet_id src src_sheet = Inr src_sheet_id
      \<and> src_sheet_id \<noteq> JNull
      \<and> R (issued w @ [(sheets_service (lifespan_context w), SpreadsheetsGet src_spreadsheet)])
           (sheets_service (lifespan_context w),
            SheetsCopyTo src_spreadsheet src_sheet_id
              (JObj [(''destinationSpreadsheetId'', JStr dst_spreadsheet)]))
          = Inr (JObj kvs)
      \<and> map_of kvs ''title'' = Some t"
     and "t \<noteq> JStr dst_sheet \<and> map_of kvs ''sheetId'' = Some copy_sheet_id"
     and "R (issued w @
                    [(sheets_service (lifespan_context w), SpreadsheetsGet src_spreadsheet),
                     (sheets_service (lifespan_context w),
                      SheetsCopyTo src_spreadsheet src_sheet_id
                        (JObj [(''destinationSpreadsheetId'', JStr dst_spreadsheet)]))])
                 (sheets_service (lifespan_context w),
                  SpreadsheetsBatchUpdate dst_spreadsheet
                    (JObj [(''requests'', JList [JObj [(''updateSheetProperties'', JObj [
                       (''properties'', JObj [(''sheetId'', copy_sheet_id),
                                              (''title'', JStr dst_sheet)]),
                       (''fields'', JStr ''title'')])]])]))
                 = Inr rename_result"
  then show "fst (copy_sheet R src_spreadsheet src_sheet dst_spreadsheet dst_sheet w) =
                 Inr (JObj [(''copy'', JObj kvs), (''rename'', rename_result)])"
    by (simp add: copy_sheet_def execute_def py_in_obj rename_request_def del: py_in.simps)
qed

theorem copy_sheet_call_count_witness:
  "copy_sheet (copy_remote (JObj [(''sheetId'', JInt 99), (''title'', JStr ''Archive'')]))
     ''abc123'' ''Data'' ''dst456'' ''Archive'' example_world =
     (Inr (JObj [(''copy'', JObj [(''sheetId'', JInt 99), (''title'', JStr ''Archive'')])]),
      example_world\<lparr>issued :=
        [(1, SpreadsheetsGet ''abc123''),
         (1, SheetsCopyTo ''abc123'' (JInt 7)
               (JObj [(''destinationSpreadsheetId'', JStr ''dst456'')]))]\<rparr>)
   \<and> issued (snd (copy_sheet
        (copy_remote (JObj [(''sheetId'', JInt 99), (''title'', JStr ''Copy of Data'')]))
        ''abc123'' ''Data'' ''dst456'' ''Archive'' example_world)) =
        [(1, SpreadsheetsGet ''abc123''),
         (1, SheetsCopyTo ''abc123'' (JInt 7)
               (JObj [(''destinationSpreadsheetId'', JStr ''dst456'')])),
         (1, SpreadsheetsBatchUpdate ''dst456''
               (JObj [(''requests'', JList [JObj [(''updateSheetProperties'', JObj [
                  (''properties'', JObj [(''sheetId'', JInt 99), (''title'', JStr ''Archive'')]),
                  (''fields'', JStr ''title'')])]])]))]
   \<and> fst (copy_sheet
        (copy_remote (JObj [(''sheetId'', JInt 99), (''title'', JStr ''Copy of Data'')]))
        ''abc123'' ''Data'' ''dst456'' ''Archive'' example_world) =
        Inr (JObj [(''copy'', JObj [(''sheetId'', JInt 99), (''title'', JStr ''Copy of Data'')]),
                   (''rename'', JObj [(''requestsBefore'', JInt 2)])])"
proof -
  have f: "find_sheet_id example_spreadsheet ''Data'' = Inr (JInt 7)"
    by (simp add: find_sheet_id_def example_spreadsheet_def sheet_descriptor_def)
  show ?thesis
    using f
      copy_sheet_call_count [where R = "copy_remote (JObj [(''sheetId'', JInt 99), (''title'', JStr ''Archive'')])"
        and w = example_world and src_spreadsheet = "''abc123''" and src_sheet = "''Data''"
        and dst_spreadsheet = "''dst456''" and dst_sheet = "''Archive''"
        and src = example_spreadsheet and src_sheet_id = "JInt 7"
        and kvs = "[(''sheetId'', JInt 99), (''title'', JStr ''Archive'')]"
        and t = "JStr ''Archive''" and copy_sheet_id = "JInt 99"]
      copy_sheet_call_count [where R = "copy_remote (JObj [(''sheetId'', JInt 99), (''title'', JStr ''Copy of Data'')])"
        and w = example_world and src_spreadsheet = "''abc123''" and src_sheet = "''Data''"
        and dst_spreadsheet = "''dst456''" and dst_sheet = "''Archive''"
        and src = example_spreadsheet and src_sheet_id = "JInt 7"
        and kvs = "[(''sheetId'', JInt 99), (''title'', JStr ''Copy of Data'')]"
        and t = "JStr ''Copy of Data''" and copy_sheet_id = "JInt 99"]
    by (simp add: copy_remote_def example_world_def example_context_def)
qed

subsection \<open>The session context is only read\<close>

lemma execute_context [simp]:
  "lifespan_context (snd (execute R svc req w)) = lifespan_context w"
  by (simp add: execute_def)

lemma print_line_context [simp]:
  "lifespan_context (print_line l w) = lifespan_context w"
  by (simp add: print_line_def)

lemma get_sheet_data_context:
  "lifespan_context (snd (get_sheet_data R i s r w)) = lifespan_context w"
  by (simp add: get_sheet_data_def execute_def Let_def split: sum.split option.split)

lemma update_cells_context:
  "lifespan_context (snd (update_cells R i s r d w)) = lifespan_context w"
  by (simp add: update_cells_def execute_def Let_def)

lemma batch_update_cells_context:
  "lifespan_context (snd (batch_update_cells R i s rs w)) = lifespan_context w"
  by (simp add: batch_update_cells_def execute_def Let_def)

lemma add_rows_context:
  "lifespan_context (snd (add_rows R i s c st w)) = lifespan_context w"
  by (simp add: add_rows_def execute_def Let_def split: sum.split)

lemma add_columns_context:
  "lifespan_context (snd (add_columns R i s c st w)) = lifespan_context w"
  by (simp add: add_columns_def execute_def Let_def split: sum.split)

lemma list_sheets_context:
  "lifespan_context (snd (list_sheets R i w)) = lifespan_context w"
  by (simp add: list_sheets_def execute_def split: sum.split)

lemma copy_sheet_context:
  "lifespan_context (snd (copy_sheet R a b c d w)) = lifespan_context w"
  by (simp add: copy_sheet_def execute_def split: sum.split bool.split)

lemma rename_sheet_context:
  "lifespan_context (snd (rename_sheet R i s n w)) = lifespan_context w"
  by (simp add: rename_sheet_def execute_def split: sum.split)

lemma get_spreadsheet_info_context:
  "lifespan_context (snd (get_spreadsheet_info R dumps i w)) = lifespan_context w"
  by (simp add: get_spreadsheet_info_def execute_def split: sum.split)

lemma move_to_folder_context:
  "lifespan_context (snd (move_to_folder R i f w)) = lifespan_context w"
  by (simp add: move_to_folder_def execute_def split: sum.split)

lemma after_move_context:
  "lifespan_context
     (case move_to_folder R i f v of
        (None, w') \<Rightarrow> w'
      | (Some e, w') \<Rightarrow> print_line (MoveWarning e) w') = lifespan_context v"
  using move_to_folder_context [of R i f v]
  by (cases "move_to_folder R i f v") (simp split: option.split)

lemma create_spreadsheet_context:
  "lifespan_context (snd (create_spreadsheet R t w)) = lifespan_context w"
  by (simp add: create_spreadsheet_def execute_def Let_def after_move_context
      split: sum.split option.split)

lemma create_sheet_context:
  "lifespan_context (snd (create_sheet R i t w)) = lifespan_context w"
  by (simp add: create_sheet_def execute_def Let_def split: sum.split)

lemma list_spreadsheets_context:
  "lifespan_context (snd (list_spreadsheets R w)) = lifespan_context w"
  by (simp add: list_spreadsheets_def execute_def Let_def split: sum.split option.split)

lemma invoke_context:
  "lifespan_context (snd (invoke R dumps c w)) = lifespan_context w"
  by (cases c)
     (simp_all add: get_sheet_data_context update_cells_context batch_update_cells_context
        add_rows_context add_columns_context list_sheets_context copy_sheet_context
        rename_sheet_context get_spreadsheet_info_context create_spreadsheet_context
        create_sheet_context list_spreadsheets_context)

lemma serve_context:
  "lifespan_context (snd (serve R dumps calls w)) = lifespan_context w"
proof (induction calls arbitrary: w)
  case Nil
  show ?case by simp
next
  case (Cons c cs)
  have "snd (serve R dumps (c # cs) w) = snd (serve R dumps cs (snd (invoke R dumps c w)))"
    by (simp split: prod.split)
  then show ?case
    by (simp add: Cons.IH invoke_context)
qed

text \<open>
  Claim C8. Every tool invocation leaves the session context as it found it, and so does
  any sequence of invocations served one after the other: the sheets handle, the drive
  handle and the folder id after the calls are those before them, whatever the remote
  services answer.
\<close>

theorem session_context_is_unchanged:
  "lifespan_context (snd (invoke R dumps c w)) = lifespan_context w
   \<and> lifespan_context (snd (serve R dumps calls w)) = lifespan_context w
   \<and> sheets_service (lifespan_context (snd (serve R dumps calls w)))
       = sheets_service (lifespan_context w)
   \<and> drive_service (lifespan_context (snd (serve R dumps calls w)))
       = drive_service (lifespan_context w)
   \<and> folder_id (lifespan_context (snd (serve R dumps calls w)))
       = folder_id (lifespan_context w)"
  by (simp add: invoke_context serve_context)

theorem session_context_is_unchanged_witness:
  "lifespan_context (snd (serve metadata_remote (\<lambda>j. ''{}'')
      [CreateSpreadsheet ''Budget'', RenameSheet ''abc123'' ''Data'' ''Facts'',
       CopySheet ''abc123'' ''Data'' ''dst456'' ''Archive'', ListSpreadsheets]
      example_world)) = example_context"
  using session_context_is_unchanged [of metadata_remote "\<lambda>j. ''{}''" ListSpreadsheets
      example_world
      "[CreateSpreadsheet ''Budget'', RenameSheet ''abc123'' ''Data'' ''Facts'',
        CopySheet ''abc123'' ''Data'' ''dst456'' ''Archive'', ListSpreadsheets]"]
  by (simp add: example_world_def)

end
